theory Spec2Isabelle
  imports Main
begin

section \<open>Configuration (config/settings.py)\<close>

text \<open>
  The values the program reads from its environment at start-up.  Python integers are
  unbounded, so they are \<open>int\<close>.  \<open>TIMEZONE\<close> stands for the zone object that
  \<open>pytz.timezone(settings.TIMEZONE)\<close> resolves the configured name to; it is given by
  its offset from UTC (in microseconds) at each UTC instant.
\<close>

record settings =
  OWNER_ID :: int
  DAILY_POINTS :: int
  REFERRAL_POINTS :: int
  TIMEZONE :: "int \<Rightarrow> int"


definition MAX_MEMORY_MESSAGES :: nat where
  "MAX_MEMORY_MESSAGES = 50"

definition us_per_hour :: int where
  "us_per_hour = 3600000000"

definition us_per_day :: int where
  "us_per_day = 86400000000"

text \<open>The defaults of settings.py: owner 0, three daily points, three referral points,
  Asia/Jakarta (UTC+7, no daylight saving).\<close>

definition default_settings :: settings where
  "default_settings =
     \<lparr>OWNER_ID = 0, DAILY_POINTS = 3, REFERRAL_POINTS = 3, TIMEZONE = (\<lambda>_. 7 * us_per_hour)\<rparr>"

section \<open>Dates and times\<close>

text \<open>
  A Python \<open>datetime\<close> is either naive (a wall-clock reading with no zone) or aware (an
  instant).  Both are counted in microseconds: a naive value from the calendar's origin,
  an aware value from the origin in UTC.  The system clock is read as a UTC instant;
  \<open>datetime.now(tz)\<close> is then \<open>Aware\<close> of that instant.
\<close>

datatype datetime = Naive int | Aware int

text \<open>The wall-clock reading in zone \<open>tz\<close>: \<open>tz.localize\<close> keeps the reading of a naive
  value, \<open>astimezone(tz)\<close> shifts an instant by the zone's offset.\<close>

fun wall_clock :: "(int \<Rightarrow> int) \<Rightarrow> datetime \<Rightarrow> int" where
  "wall_clock tz (Naive w) = w"
| "wall_clock tz (Aware t) = t + tz t"

text \<open>\<open>.date()\<close>: the calendar day of a wall-clock reading, as a day number.\<close>

definition date_of :: "int \<Rightarrow> int" where
  "date_of w = w div us_per_day"

section \<open>Users (models/user.py)\<close>

record user =
  user_id :: int
  username :: "string option"
  first_name :: "string option"
  last_name :: "string option"
  is_banned :: bool
  is_admin :: bool
  daily_points :: int
  total_points_used :: int
  last_reset :: datetime
  referral_code :: "string option"
  referred_by :: "int option"
  referral_count :: int
  referral_points :: int
  join_date :: datetime
  last_activity :: datetime
  message_count :: int
  image_generated :: int
  has_clone_bot :: bool
  clone_bot_id :: "int option"

text \<open>\<open>User._check_daily_reset\<close>; \<open>now\<close> is the instant the clock shows when it runs.\<close>

definition check_daily_reset :: "settings \<Rightarrow> int \<Rightarrow> user \<Rightarrow> user" where
  "check_daily_reset s now u =
     (let tz = TIMEZONE s;
          last_reset_local = wall_clock tz (last_reset u)
      in if date_of (wall_clock tz (Aware now)) > date_of last_reset_local
         then u\<lparr>daily_points := DAILY_POINTS s, last_reset := Aware now\<rparr>
         else u)"

text \<open>\<open>User.can_generate_image\<close>: the answer and the user as the call leaves it.\<close>

definition can_generate_image :: "settings \<Rightarrow> int \<Rightarrow> user \<Rightarrow> bool \<times> user" where
  "can_generate_image s now u =
     (if is_banned u then (False, u)
      else let u' = check_daily_reset s now u
           in (daily_points u' + referral_points u' > 0, u'))"

text \<open>\<open>User.use_point\<close>.\<close>

definition use_point :: "settings \<Rightarrow> int \<Rightarrow> string \<Rightarrow> user \<Rightarrow> bool \<times> user" where
  "use_point s now point_type u =
     (let (ok, u1) = can_generate_image s now u
      in if \<not> ok then (False, u1)
         else if point_type = ''referral'' \<and> referral_points u1 > 0
         then (True, u1\<lparr>referral_points := referral_points u1 - 1,
                         total_points_used := total_points_used u1 + 1,
                         image_generated := image_generated u1 + 1\<rparr>)
         else if daily_points u1 > 0
         then (True, u1\<lparr>daily_points := daily_points u1 - 1,
                         total_points_used := total_points_used u1 + 1,
                         image_generated := image_generated u1 + 1\<rparr>)
         else (False, u1))"

section \<open>The users collection (services/user_service.py)\<close>

text \<open>
  The collection is the sequence of its documents.  \<open>find_one\<close> yields the first document
  a query matches; \<open>update_one\<close> with \<open>$set\<close> of a whole user rewrites the first document
  with that \<open>user_id\<close> and reports whether a document changed.  Storage calls are taken
  to return normally (a lost connection is outside the model).
\<close>

type_synonym users_collection = "user list"

definition get_user :: "users_collection \<Rightarrow> int \<Rightarrow> user option" where
  "get_user db uid = find (\<lambda>d. user_id d = uid) db"

definition get_user_by_referral_code :: "users_collection \<Rightarrow> string \<Rightarrow> user option" where
  "get_user_by_referral_code db code = find (\<lambda>d. referral_code d = Some code) db"

fun update_one :: "int \<Rightarrow> (user \<Rightarrow> user) \<Rightarrow> users_collection \<Rightarrow> users_collection" where
  "update_one uid f [] = []"
| "update_one uid f (d # ds) = (if user_id d = uid then f d # ds else d # update_one uid f ds)"

text \<open>\<open>UserService.update_user\<close>: every field of the stored document is set from the
  object; the result is \<open>modified_count > 0\<close>.\<close>

definition update_user :: "users_collection \<Rightarrow> user \<Rightarrow> bool \<times> users_collection" where
  "update_user db u =
     (let db' = update_one (user_id u) (\<lambda>_. u) db in (db' \<noteq> db, db'))"

section \<open>Points (services/point_service.py)\<close>

text \<open>\<open>PointService.can_user_generate_image\<close>.\<close>

definition can_user_generate_image :: "settings \<Rightarrow> int \<Rightarrow> user \<Rightarrow> bool \<times> user" where
  "can_user_generate_image s now u =
     (if is_banned u then (False, u)
      else let u' = check_daily_reset s now u
           in (daily_points u' + referral_points u' > 0, u'))"

text \<open>
  \<open>PointService.use_point_for_image\<close>.  The clock is read twice, at \<open>now1\<close> by the
  service's own check and at \<open>now2\<close> by the model's; the result is the answer, the user
  object and the collection as the call leaves them.
\<close>

definition use_point_for_image ::
  "settings \<Rightarrow> int \<Rightarrow> int \<Rightarrow> users_collection \<Rightarrow> user \<Rightarrow> string
     \<Rightarrow> bool \<times> user \<times> users_collection" where
  "use_point_for_image s now1 now2 db u point_type =
     (let (ok, u1) = can_user_generate_image s now1 u
      in if \<not> ok then (False, u1, db)
         else let point_type' =
                    (if point_type = ''auto''
                     then (if referral_points u1 > 0 then ''referral'' else ''daily'')
                     else point_type);
                  (success, u2) = use_point s now2 point_type' u1
              in if success then (True, u2, update_one (user_id u2) (\<lambda>_. u2) db)
                 else (False, u2, db))"

text \<open>\<open>str()\<close> of an integer, for the texts the program builds.\<close>

fun str_nat :: "nat \<Rightarrow> string" where
  "str_nat n =
     (if n < 10 then [char_of (48 + n)] else str_nat (n div 10) @ [char_of (48 + n mod 10)])"

declare str_nat.simps [simp del]

definition str_int :: "int \<Rightarrow> string" where
  "str_int i = (if i < 0 then CHR ''-'' # str_nat (nat (- i)) else str_nat (nat i))"

text \<open>
  The dictionary \<open>get_user_points_info\<close> builds.  The function answers \<open>{}\<close> from its
  \<open>except\<close> clause; that empty dictionary is \<open>None\<close> here.
\<close>

record time_until_reset =
  tur_hours :: int
  tur_minutes :: int
  tur_text :: string

record points_info =
  info_daily_points :: int
  info_referral_points :: int
  info_total_points :: int
  info_total_points_used :: int
  info_images_generated :: int
  info_can_generate :: bool
  info_time_until_reset :: time_until_reset
  info_last_reset :: string

text \<open>
  \<open>PointService.get_user_points_info\<close>.  The function reaches for \<open>pytz.timedelta\<close>;
  \<open>pytz_timedelta\<close> is what that attribute lookup gives: \<open>None\<close> when the \<open>pytz\<close>
  module has no such attribute (the lookup then raises \<open>AttributeError\<close>, which the
  \<open>except\<close> clause turns into \<open>{}\<close>), and \<open>Some td\<close> when it has, \<open>td days\<close> being the
  length of \<open>timedelta(days=days)\<close> in microseconds.  \<open>strftime\<close> renders a datetime as
  \<open>%d/%m/%Y %H:%M\<close>.  The clock is read three times: by the reset check (\<open>now0\<close>), by
  the countdown (\<open>now1\<close>) and by the eligibility check (\<open>now2\<close>).  The balances are put
  into the dictionary before the eligibility check runs, the reset stamp after it.
  \<open>total_seconds()\<close> is a float; on whole microseconds within a day its floor divisions
  by 3600 and 60 are the integer divisions written here.
\<close>

definition get_user_points_info ::
  "settings \<Rightarrow> (int \<Rightarrow> int) option \<Rightarrow> (datetime \<Rightarrow> string) \<Rightarrow> int \<Rightarrow> int \<Rightarrow> int \<Rightarrow> user
     \<Rightarrow> points_info option \<times> user" where
  "get_user_points_info s pytz_timedelta strftime now0 now1 now2 u =
     (let u1 = check_daily_reset s now0 u;
          now = wall_clock (TIMEZONE s) (Aware now1)
      in case pytz_timedelta of
           None \<Rightarrow> (None, u1)
         | Some timedelta \<Rightarrow>
             (let tomorrow = (now - now mod us_per_day) + timedelta 1;
                  time_until_reset = tomorrow - now;
                  hours_until_reset = time_until_reset div us_per_hour;
                  minutes_until_reset = (time_until_reset mod us_per_hour) div 60000000;
                  (can_generate, u2) = can_user_generate_image s now2 u1
              in (Some \<lparr>info_daily_points = daily_points u1,
                         info_referral_points = referral_points u1,
                         info_total_points = daily_points u1 + referral_points u1,
                         info_total_points_used = total_points_used u1,
                         info_images_generated = image_generated u1,
                         info_can_generate = can_generate,
                         info_time_until_reset =
                           \<lparr>tur_hours = hours_until_reset, tur_minutes = minutes_until_reset,
                            tur_text = str_int hours_until_reset @ ''h '' @
                                   str_int minutes_until_reset @ ''m''\<rparr>,
                         info_last_reset = strftime (last_reset u2)\<rparr>, u2)))"

text \<open>The released \<open>pytz\<close> package: its \<open>__init__\<close> imports the \<open>datetime\<close> module as a
  whole and binds no name \<open>timedelta\<close>.\<close>

definition pytz_module_timedelta :: "(int \<Rightarrow> int) option" where
  "pytz_module_timedelta = None"

text \<open>\<open>datetime.timedelta(days=n)\<close>, which utils/helpers.py imports by name.\<close>

definition datetime_timedelta :: "int \<Rightarrow> int" where
  "datetime_timedelta days = days * us_per_day"

section \<open>Helpers (utils/helpers.py)\<close>

record time_until_midnight =
  tm_hours :: int
  tm_minutes :: int
  tm_seconds :: int
  tm_total_seconds :: int
  tm_text :: string

text \<open>\<open>time_until_midnight_wib\<close>: the same countdown, with \<open>timedelta\<close> taken from
  \<open>datetime\<close>.\<close>

definition time_until_midnight_wib :: "settings \<Rightarrow> int \<Rightarrow> time_until_midnight" where
  "time_until_midnight_wib s now_utc =
     (let now = wall_clock (TIMEZONE s) (Aware now_utc);
          tomorrow = (now - now mod us_per_day) + datetime_timedelta 1;
          time_until = tomorrow - now;
          hours = time_until div us_per_hour;
          minutes = (time_until mod us_per_hour) div 60000000;
          seconds = (time_until mod 60000000) div 1000000
      in \<lparr>tm_hours = hours, tm_minutes = minutes, tm_seconds = seconds,
          tm_total_seconds = time_until div 1000000,
          tm_text = str_int hours @ ''h '' @ str_int minutes @ ''m''\<rparr>)"

section \<open>Conversations (models/conversation.py)\<close>

record message =
  role :: string
  content :: string
  message_type :: string
  timestamp :: datetime
  metadata :: "(string \<times> string) list"

record conversation =
  conv_user_id :: int
  messages :: "message list"
  created_at :: datetime
  updated_at :: datetime

text \<open>Python's \<open>xs[i:]\<close>: a negative start counts from the end, and a start beyond
  either end is clamped.\<close>

definition slice_from :: "int \<Rightarrow> 'a list \<Rightarrow> 'a list" where
  "slice_from i xs =
     (let n = int (length xs);
          start = (if i < 0 then max (n + i) 0 else min i n)
      in drop (nat start) xs)"

text \<open>\<open>Message(role, content, message_type)\<close>: the timestamp defaults to the clock.\<close>

definition new_message :: "int \<Rightarrow> string \<Rightarrow> string \<Rightarrow> string \<Rightarrow> message" where
  "new_message now r c t =
     \<lparr>role = r, content = c, message_type = t, timestamp = Aware now, metadata = []\<rparr>"

text \<open>\<open>Conversation.add_message\<close>; the clock is read for the message (\<open>now1\<close>) and for
  \<open>updated_at\<close> (\<open>now2\<close>).\<close>

definition add_message ::
  "int \<Rightarrow> int \<Rightarrow> string \<Rightarrow> string \<Rightarrow> string \<Rightarrow> conversation \<Rightarrow> conversation" where
  "add_message now1 now2 r c t conv =
     (let message = new_message now1 r c t;
          conv1 = conv\<lparr>messages := messages conv @ [message], updated_at := Aware now2\<rparr>
      in if length (messages conv1) > MAX_MEMORY_MESSAGES
         then conv1\<lparr>messages := slice_from (- int MAX_MEMORY_MESSAGES) (messages conv1)\<rparr>
         else conv1)"

text \<open>\<open>Conversation.get_recent_messages\<close>.\<close>

definition get_recent_messages :: "conversation \<Rightarrow> int \<Rightarrow> message list" where
  "get_recent_messages conv limit =
     (if limit > 0 then slice_from (- limit) (messages conv) else messages conv)"

section \<open>The memory service (services/memory_service.py)\<close>

type_synonym conversations_collection = "conversation list"

definition get_conversation :: "conversations_collection \<Rightarrow> int \<Rightarrow> conversation option" where
  "get_conversation coll uid = find (\<lambda>d. conv_user_id d = uid) coll"

text \<open>\<open>create_conversation\<close>: a fresh conversation, stamped twice by the clock and
  inserted.\<close>

definition create_conversation ::
  "int \<Rightarrow> int \<Rightarrow> conversations_collection \<Rightarrow> int \<Rightarrow> conversation \<times> conversations_collection" where
  "create_conversation now1 now2 coll uid =
     (let conv = \<lparr>conv_user_id = uid, messages = [], created_at = Aware now1,
                  updated_at = Aware now2\<rparr>
      in (conv, coll @ [conv]))"

definition get_or_create_conversation ::
  "int \<Rightarrow> int \<Rightarrow> conversations_collection \<Rightarrow> int \<Rightarrow> conversation \<times> conversations_collection" where
  "get_or_create_conversation now1 now2 coll uid =
     (case get_conversation coll uid of
        Some conv \<Rightarrow> (conv, coll)
      | None \<Rightarrow> create_conversation now1 now2 coll uid)"

text \<open>\<open>update_one(..., upsert=True)\<close>: the first document of the user is rewritten, or the
  document is added when the user has none.\<close>

fun upsert_conversation :: "conversation \<Rightarrow> conversations_collection \<Rightarrow> conversations_collection" where
  "upsert_conversation conv [] = [conv]"
| "upsert_conversation conv (d # ds) =
     (if conv_user_id d = conv_user_id conv then conv # ds
      else d # upsert_conversation conv ds)"

text \<open>
  \<open>MemoryService.add_message\<close>.  \<open>clock k\<close> is the \<open>k\<close>-th reading of the clock during the
  call: readings 0 and 1 stamp a conversation that has to be created, readings 2 and 3
  the message and the update.
\<close>

definition memory_add_message ::
  "(nat \<Rightarrow> int) \<Rightarrow> conversations_collection \<Rightarrow> int \<Rightarrow> string \<Rightarrow> string \<Rightarrow> string
     \<Rightarrow> conversations_collection" where
  "memory_add_message clock coll uid r c t =
     (let (conv, coll1) = get_or_create_conversation (clock 0) (clock 1) coll uid;
          conv1 = add_message (clock 2) (clock 3) r c t conv
      in upsert_conversation conv1 coll1)"

section \<open>Referrals (services/referral_service.py)\<close>

text \<open>
  \<open>ReferralService.process_referral\<close>: the answer, its text, and the users collection as
  the call leaves it.  A \<open>referred_by\<close> counts as set when it is truthy: present and not 0.
\<close>

definition process_referral ::
  "settings \<Rightarrow> users_collection \<Rightarrow> int \<Rightarrow> string \<Rightarrow> (bool \<times> string) \<times> users_collection" where
  "process_referral s db new_user_id code =
     (case get_user_by_referral_code db code of
        None \<Rightarrow> ((False, ''Kode referral tidak valid.''), db)
      | Some referrer \<Rightarrow>
          if user_id referrer = new_user_id
          then ((False, ''Anda tidak bisa menggunakan kode referral sendiri.''), db)
          else (case get_user db new_user_id of
                  None \<Rightarrow> ((False, ''User baru belum terdaftar.''), db)
                | Some new_user \<Rightarrow>
                    if referred_by new_user \<noteq> None \<and> referred_by new_user \<noteq> Some 0
                    then ((False, ''Anda sudah menggunakan kode referral sebelumnya.''), db)
                    else
                      (let new_user1 = new_user
                             \<lparr>referred_by := Some (user_id referrer),
                              referral_points := referral_points new_user + REFERRAL_POINTS s\<rparr>;
                           db1 = snd (update_user db new_user1);
                           referrer1 = referrer
                             \<lparr>referral_count := referral_count referrer + 1,
                              referral_points := referral_points referrer + REFERRAL_POINTS s\<rparr>;
                           db2 = snd (update_user db1 referrer1)
                       in ((True, ''Berhasil! Anda dan yang mengundang masing-masing mendapat ''
                                  @ str_int (REFERRAL_POINTS s) @ '' poin.''), db2))))"

section \<open>Long messages (core/bot.py, utils/helpers.py)\<close>









section \<open>The /image command (handlers/user_handlers.py)\<close>





section \<open>Administration (core/bot.py, handlers/admin_handlers.py)\<close>











section \<open>Broadcasts (handlers/admin_handlers.py)\<close>

text \<open>\<open>UserService.get_users_for_broadcast\<close>.\<close>

definition get_users_for_broadcast :: "users_collection \<Rightarrow> bool \<Rightarrow> int list" where
  "get_users_for_broadcast db exclude_banned =
     map user_id (if exclude_banned then filter (\<lambda>d. is_banned d \<noteq> True) db else db)"

text \<open>\<open>_send_broadcast_message\<close>: \<open>deliver uid\<close> tells whether the platform accepts the
  message for \<open>uid\<close>; a refusal raises, is caught, and gives \<open>False\<close>.\<close>

definition send_broadcast_message :: "(int \<Rightarrow> bool) \<Rightarrow> int \<Rightarrow> bool" where
  "send_broadcast_message deliver uid = (if deliver uid then True else False)"

record broadcast_result =
  success :: int
  failed :: int
  total :: int

text \<open>The inner loop over the results of one batch.\<close>

fun count_results :: "bool list \<Rightarrow> int \<times> int \<Rightarrow> int \<times> int" where
  "count_results [] counts = counts"
| "count_results (r # rs) (success_count, failed_count) =
     (if r then count_results rs (success_count + 1, failed_count)
      else count_results rs (success_count, failed_count + 1))"

text \<open>The outer loop: batches of 30, the initiating admin left out of each.\<close>

function broadcast_batches ::
  "(int \<Rightarrow> bool) \<Rightarrow> int \<Rightarrow> int list \<Rightarrow> int \<times> int \<Rightarrow> int \<times> int" where
  "broadcast_batches deliver admin_id user_ids counts =
     (if user_ids = [] then counts
      else (let batch = take 30 user_ids;
                tasks = filter (\<lambda>uid. uid \<noteq> admin_id) batch;
                results = map (send_broadcast_message deliver) tasks
            in broadcast_batches deliver admin_id (drop 30 user_ids)
                 (count_results results counts)))"
  by pat_completeness auto
termination
  by (relation "measure (\<lambda>(deliver, admin_id, user_ids, counts). length user_ids)") auto

declare broadcast_batches.simps [simp del]

text \<open>\<open>AdminHandlers.execute_broadcast\<close>.\<close>

definition execute_broadcast :: "users_collection \<Rightarrow> (int \<Rightarrow> bool) \<Rightarrow> int \<Rightarrow> broadcast_result" where
  "execute_broadcast db deliver admin_id =
     (let user_ids = get_users_for_broadcast db True
      in if user_ids = [] then \<lparr>success = 0, failed = 0, total = 0\<rparr>
         else (let total_count = int (length user_ids);
                   (success_count, failed_count) =
                      broadcast_batches deliver admin_id user_ids (0, 0)
               in \<lparr>success = success_count, failed = failed_count, total = total_count\<rparr>))"

section \<open>Notions used in the statements\<close>

text \<open>The clock reading \<open>now\<close> falls on a later local calendar day than the user's
  \<open>last_reset\<close>.\<close>

definition new_day :: "settings \<Rightarrow> int \<Rightarrow> user \<Rightarrow> bool" where
  "new_day s now u \<longleftrightarrow>
     date_of (wall_clock (TIMEZONE s) (last_reset u))
       < date_of (wall_clock (TIMEZONE s) (Aware now))"

text \<open>A user to run the functions on: two referral points, three daily points, last
  reset at 07:00 local time of day 20000.\<close>

definition sample_user :: user where
  "sample_user =
     \<lparr>user_id = 1001, username = Some ''budi'', first_name = Some ''Budi'', last_name = None,
      is_banned = False, is_admin = False, daily_points = 3, total_points_used = 4,
      last_reset = Aware (20000 * us_per_day), referral_code = Some ''AB12CD34'',
      referred_by = None, referral_count = 0, referral_points = 2,
      join_date = Aware (19000 * us_per_day), last_activity = Aware (20000 * us_per_day),
      message_count = 7, image_generated = 4, has_clone_bot = False, clone_bot_id = None\<rparr>"

text \<open>Two clock readings under the default zone: 23:00 of the same local day, and 00:00
  of the next.\<close>

definition late_evening :: int where
  "late_evening = 20000 * us_per_day + 16 * us_per_hour"

definition next_midnight :: int where
  "next_midnight = 20000 * us_per_day + 17 * us_per_hour"





text \<open>The \<open>n\<close> most recent entries of a sequence, in their order.\<close>

definition most_recent :: "nat \<Rightarrow> 'a list \<Rightarrow> 'a list" where
  "most_recent n xs = drop (length xs - n) xs"

text \<open>A sequence of appends to one conversation: each append comes with its two clock
  readings, role, content and type; \<open>built\<close> is the message it adds.\<close>

type_synonym append_request = "int \<times> int \<times> string \<times> string \<times> string"

fun built :: "append_request \<Rightarrow> message" where
  "built (now1, now2, r, c, t) = new_message now1 r c t"

fun add_messages :: "append_request list \<Rightarrow> conversation \<Rightarrow> conversation" where
  "add_messages [] conv = conv"
| "add_messages ((now1, now2, r, c, t) # rest) conv =
     add_messages rest (add_message now1 now2 r c t conv)"

text \<open>An empty conversation, sixty numbered appends, and the conversation that the first
  three of them leave.\<close>

definition fresh_conversation :: conversation where
  "fresh_conversation =
     \<lparr>conv_user_id = 1001, messages = [], created_at = Aware 0, updated_at = Aware 0\<rparr>"

definition numbered_request :: "nat \<Rightarrow> append_request" where
  "numbered_request k = (int k, int k, ''user'', ''halo'', ''text'')"

definition sixty_requests :: "append_request list" where
  "sixty_requests = map numbered_request [0..<60]"

definition three_messages :: conversation where
  "three_messages = add_messages (map numbered_request [0..<3]) fresh_conversation"



text \<open>A second user, who redeemed the first one's referral code, and the collection of
  the two.\<close>

definition referred_user :: user where
  "referred_user = sample_user\<lparr>user_id := 1002, referral_code := Some ''ZZ99YY88'',
     referred_by := Some 1001\<rparr>"

definition two_users :: users_collection where
  "two_users = [sample_user, referred_user]"

text \<open>A platform that delivers to everyone.\<close>

definition everyone_reachable :: "int \<Rightarrow> bool" where
  "everyone_reachable uid = True"







section \<open>The daily reset and the spending of points\<close>

lemma cdr_fields [simp]:
  "is_banned (check_daily_reset s now u) = is_banned u"
  "user_id (check_daily_reset s now u) = user_id u"
  "referral_points (check_daily_reset s now u) = referral_points u"
  "total_points_used (check_daily_reset s now u) = total_points_used u"
  "image_generated (check_daily_reset s now u) = image_generated u"
  "daily_points (check_daily_reset s now u) = (if new_day s now u then DAILY_POINTS s else daily_points u)"
  "last_reset (check_daily_reset s now u) = (if new_day s now u then Aware now else last_reset u)"
  by (simp_all add: check_daily_reset_def new_day_def Let_def)


lemma cdr_same_day: "\<not> new_day s now u \<Longrightarrow> check_daily_reset s now u = u"
  by (simp add: check_daily_reset_def new_day_def Let_def)


lemma new_day_upd [simp]:
  "new_day s now (u\<lparr>referral_points := r\<rparr>) = new_day s now u"
  "new_day s now (u\<lparr>daily_points := d\<rparr>) = new_day s now u"
  "new_day s now (u\<lparr>total_points_used := t\<rparr>) = new_day s now u"
  "new_day s now (u\<lparr>image_generated := i\<rparr>) = new_day s now u"
  by (simp_all add: new_day_def)

lemma upfi_referral:
  assumes "\<not> is_banned u" "0 < referral_points u"
    and "0 < daily_points (check_daily_reset s a u) + referral_points u"
    and "0 < daily_points (check_daily_reset s b (check_daily_reset s a u)) + referral_points u"
  shows "use_point_for_image s a b db u ''auto'' =
     (True, (check_daily_reset s b (check_daily_reset s a u))
              \<lparr>referral_points := referral_points u - 1,
               total_points_used := total_points_used u + 1,
               image_generated := image_generated u + 1\<rparr>,
      update_one (user_id u) (\<lambda>_. (check_daily_reset s b (check_daily_reset s a u))
              \<lparr>referral_points := referral_points u - 1,
               total_points_used := total_points_used u + 1,
               image_generated := image_generated u + 1\<rparr>) db)"
  using assms
  by (simp add: use_point_for_image_def use_point_def can_generate_image_def can_user_generate_image_def Let_def del: cdr_fields(6))

lemma upfi_daily:
  assumes "\<not> is_banned u" "referral_points u = 0"
    and "0 < daily_points (check_daily_reset s a u)"
    and "0 < daily_points (check_daily_reset s b (check_daily_reset s a u))"
  shows "use_point_for_image s a b db u ''auto'' =
     (True, (check_daily_reset s b (check_daily_reset s a u))
              \<lparr>daily_points := daily_points (check_daily_reset s b (check_daily_reset s a u)) - 1,
               total_points_used := total_points_used u + 1,
               image_generated := image_generated u + 1\<rparr>,
      update_one (user_id u) (\<lambda>_. (check_daily_reset s b (check_daily_reset s a u))
              \<lparr>daily_points := daily_points (check_daily_reset s b (check_daily_reset s a u)) - 1,
               total_points_used := total_points_used u + 1,
               image_generated := image_generated u + 1\<rparr>) db)"
  using assms
  by (simp add: use_point_for_image_def use_point_def can_generate_image_def can_user_generate_image_def Let_def del: cdr_fields(6))

lemma three_calls_default:
  assumes cfg: "DAILY_POINTS s = 3"
    and u: "\<not> is_banned u" "referral_points u = 2" "daily_points u = 3"
  shows "(let (r1, u1, db1) = use_point_for_image s a1 b1 db u ''auto'';
              (r2, u2, db2) = use_point_for_image s a2 b2 db1 u1 ''auto'';
              (r3, u3, db3) = use_point_for_image s a3 b3 db2 u2 ''auto''
          in r1 \<and> r2 \<and> r3 \<and> referral_points u2 = 0 \<and> daily_points u2 = 3
             \<and> referral_points u3 = 0 \<and> daily_points u3 = 2)"
proof -
  obtain u1 db1 where s1: "use_point_for_image s a1 b1 db u ''auto'' = (True, u1, db1)"
    and u1: "\<not> is_banned u1" "referral_points u1 = 1" "daily_points u1 = 3"
    using upfi_referral [of u s a1 b1 db] cfg u by simp
  obtain u2 db2 where s2: "use_point_for_image s a2 b2 db1 u1 ''auto'' = (True, u2, db2)"
    and u2: "\<not> is_banned u2" "referral_points u2 = 0" "daily_points u2 = 3"
    using upfi_referral [of u1 s a2 b2 db1] cfg u1 by simp
  obtain u3 db3 where s3: "use_point_for_image s a3 b3 db2 u2 ''auto'' = (True, u3, db3)"
    and u3: "referral_points u3 = 0" "daily_points u3 = 2"
    using upfi_daily [of u2 s a3 b3 db2] cfg u2 by simp
  show ?thesis
    by (simp add: s1 s2 s3 u2 u3)
qed

lemma three_calls_same_day:
  assumes nd: "\<not> new_day s a1 u" "\<not> new_day s b1 u" "\<not> new_day s a2 u" "\<not> new_day s b2 u"
      "\<not> new_day s a3 u" "\<not> new_day s b3 u"
    and u: "\<not> is_banned u" "referral_points u = 2" "daily_points u = 3"
  shows "(let (r1, u1, db1) = use_point_for_image s a1 b1 db u ''auto'';
              (r2, u2, db2) = use_point_for_image s a2 b2 db1 u1 ''auto'';
              (r3, u3, db3) = use_point_for_image s a3 b3 db2 u2 ''auto''
          in r1 \<and> r2 \<and> r3 \<and> referral_points u2 = 0 \<and> daily_points u2 = 3
             \<and> referral_points u3 = 0 \<and> daily_points u3 = 2)"
proof -
  define u1 where "u1 = u\<lparr>referral_points := 1, total_points_used := total_points_used u + 1,
                         image_generated := image_generated u + 1\<rparr>"
  define u2 where "u2 = u1\<lparr>referral_points := 0, total_points_used := total_points_used u1 + 1,
                         image_generated := image_generated u1 + 1\<rparr>"
  define u3 where "u3 = u2\<lparr>daily_points := 2, total_points_used := total_points_used u2 + 1,
                         image_generated := image_generated u2 + 1\<rparr>"
  have nd1: "\<not> new_day s a2 u1" "\<not> new_day s b2 u1"
    using nd by (simp_all add: u1_def)
  have nd2: "\<not> new_day s a3 u2" "\<not> new_day s b3 u2"
    using nd by (simp_all add: u2_def u1_def)
  have s1: "fst (use_point_for_image s a1 b1 db u ''auto'')"
       "fst (snd (use_point_for_image s a1 b1 db u ''auto'')) = u1"
    using upfi_referral [of u s a1 b1 db] u nd by (simp_all add: cdr_same_day u1_def)
  have s2: "fst (use_point_for_image s a2 b2 db1 u1 ''auto'')"
       "fst (snd (use_point_for_image s a2 b2 db1 u1 ''auto'')) = u2" for db1
    using upfi_referral [of u1 s a2 b2 db1] u nd1 by (simp_all add: cdr_same_day u1_def u2_def)
  have s3: "fst (use_point_for_image s a3 b3 db2 u2 ''auto'')"
       "fst (snd (use_point_for_image s a3 b3 db2 u2 ''auto'')) = u3" for db2
    using upfi_daily [of u2 s a3 b3 db2] u nd2 by (simp_all add: cdr_same_day u1_def u2_def u3_def)
  have vals: "referral_points u2 = 0" "daily_points u2 = 3" "referral_points u3 = 0" "daily_points u3 = 2"
    using u by (simp_all add: u1_def u2_def u3_def)
  show ?thesis
    using s1 s2 s3 vals by (simp add: case_prod_beta Let_def)
qed

text \<open>
  Claim C3.  A user who is not banned holds two referral points and three daily points.
  Three calls of \<open>use_point_for_image\<close> in mode \<open>auto\<close> follow one another, each on the
  user object and the collection the call before left, each reading the clock twice.
  All three succeed; after the second the user has no referral point and three daily
  points, after the third two daily points.  This holds under the default allotment of
  three daily points, and under any allotment when none of the six clock readings falls
  on a later day than the user's last reset.
\<close>

theorem C3_referral_points_spent_first:
  assumes cfg: "DAILY_POINTS s = 3 \<or> list_all (\<lambda>n. \<not> new_day s n u) [a1, b1, a2, b2, a3, b3]"
    and u: "\<not> is_banned u" "referral_points u = 2" "daily_points u = 3"
  shows "(let (r1, u1, db1) = use_point_for_image s a1 b1 db u ''auto'';
              (r2, u2, db2) = use_point_for_image s a2 b2 db1 u1 ''auto'';
              (r3, u3, db3) = use_point_for_image s a3 b3 db2 u2 ''auto''
          in r1 \<and> r2 \<and> r3 \<and> referral_points u2 = 0 \<and> daily_points u2 = 3
             \<and> referral_points u3 = 0 \<and> daily_points u3 = 2)"
proof (cases "DAILY_POINTS s = 3")
  case True
  then show ?thesis
    using u by (rule three_calls_default)
next
  case False
  with cfg have "\<not> new_day s a1 u" "\<not> new_day s b1 u" "\<not> new_day s a2 u" "\<not> new_day s b2 u"
      "\<not> new_day s a3 u" "\<not> new_day s b3 u"
    by simp_all
  then show ?thesis
    using u by (rule three_calls_same_day)
qed

theorem C3_referral_points_spent_first_witness:
  "DAILY_POINTS default_settings = 3 \<and> \<not> is_banned sample_user
   \<and> referral_points sample_user = 2 \<and> daily_points sample_user = 3 \<and>
   (let (r1, u1, db1) = use_point_for_image default_settings late_evening late_evening [sample_user] sample_user ''auto'';
        (r2, u2, db2) = use_point_for_image default_settings late_evening next_midnight db1 u1 ''auto'';
        (r3, u3, db3) = use_point_for_image default_settings next_midnight next_midnight db2 u2 ''auto''
    in r1 \<and> r2 \<and> r3 \<and> referral_points u2 = 0 \<and> daily_points u2 = 3
       \<and> referral_points u3 = 0 \<and> daily_points u3 = 2)"
proof -
  have "DAILY_POINTS default_settings = 3"
    by (simp add: default_settings_def)
  moreover have "\<not> is_banned sample_user" "referral_points sample_user = 2" "daily_points sample_user = 3"
    by (simp_all add: sample_user_def)
  ultimately show ?thesis
    using C3_referral_points_spent_first [of default_settings sample_user late_evening late_evening late_evening next_midnight
        next_midnight next_midnight "[sample_user]"]
    by simp
qed

lemma cugi_unbanned:
  "\<not> is_banned u \<Longrightarrow> can_user_generate_image s now u =
     (0 < daily_points (check_daily_reset s now u) + referral_points u, check_daily_reset s now u)"
  by (simp add: can_user_generate_image_def Let_def del: cdr_fields(6))

lemma cugi_banned: "is_banned u \<Longrightarrow> can_user_generate_image s now u = (False, u)"
  by (simp add: can_user_generate_image_def)

lemma cugi_counters [simp]:
  "total_points_used (snd (can_user_generate_image s now u)) = total_points_used u"
  "image_generated (snd (can_user_generate_image s now u)) = image_generated u"
  "referral_points (snd (can_user_generate_image s now u)) = referral_points u"
  "is_banned (snd (can_user_generate_image s now u)) = is_banned u"
  by (cases "is_banned u"; simp add: cugi_unbanned cugi_banned)+






section \<open>The points query\<close>

text \<open>
  Claim C2 says that the points query answers a user who is not banned with a filled
  dictionary.  The program's query reaches for \<open>pytz.timedelta\<close>, which the \<open>pytz\<close> module
  does not have: for every user, banned or not, at every time, the answer is the empty
  dictionary, after the reset check has run.
\<close>

theorem C2_points_info_is_empty:
  "get_user_points_info s pytz_module_timedelta fmt n0 n1 n2 u
     = (None, check_daily_reset s n0 u)"
  by (simp add: get_user_points_info_def pytz_module_timedelta_def Let_def)

text \<open>With the \<open>timedelta\<close> of \<open>datetime\<close>, as \<open>time_until_midnight_wib\<close> has it, the
  query would give what the claim lists, its countdown being that of the helper.\<close>

lemma points_info_with_timedelta:
  assumes "\<not> is_banned u"
  shows "\<exists>i. fst (get_user_points_info s (Some datetime_timedelta) fmt n0 n1 n2 u) = Some i
     \<and> info_daily_points i = daily_points (check_daily_reset s n0 u)
     \<and> info_referral_points i = referral_points u
     \<and> info_total_points i = info_daily_points i + info_referral_points i
     \<and> info_total_points_used i = total_points_used u
     \<and> info_images_generated i = image_generated u
     \<and> info_can_generate i = fst (can_user_generate_image s n2 (check_daily_reset s n0 u))
     \<and> tur_hours (info_time_until_reset i) = tm_hours (time_until_midnight_wib s n1)
     \<and> tur_minutes (info_time_until_reset i) = tm_minutes (time_until_midnight_wib s n1)
     \<and> tur_text (info_time_until_reset i) = tm_text (time_until_midnight_wib s n1)"
  by (simp add: get_user_points_info_def time_until_midnight_wib_def Let_def case_prod_beta del: cdr_fields(6))

section \<open>The /image command\<close>







section \<open>Conversation memory\<close>

lemma slice_from_neg:
  assumes "0 < n"
  shows "slice_from (- int n) xs = most_recent n xs"
proof -
  have "nat (max (int (length xs) + - int n) 0) = length xs - n"
    by arith
  with assms show ?thesis
    by (simp add: slice_from_def most_recent_def Let_def)
qed

lemma most_recent_length: "length (most_recent n xs) = min n (length xs)"
  by (simp add: most_recent_def)

lemma most_recent_all: "length xs \<le> n \<Longrightarrow> most_recent n xs = xs"
  by (simp add: most_recent_def)

lemma most_recent_append: "most_recent n (most_recent n xs @ ys) = most_recent n (xs @ ys)"
  by (cases "length xs \<le> n") (simp_all add: most_recent_def add.commute)

lemma add_message_messages:
  "messages (add_message now1 now2 r c t conv)
     = most_recent MAX_MEMORY_MESSAGES (messages conv @ [new_message now1 r c t])"
proof -
  have pos: "0 < MAX_MEMORY_MESSAGES"
    by (simp add: MAX_MEMORY_MESSAGES_def)
  show ?thesis
    by (simp add: add_message_def Let_def slice_from_neg [OF pos] most_recent_all)
qed

lemma add_message_user [simp]:
  "conv_user_id (add_message now1 now2 r c t conv) = conv_user_id conv"
  by (simp add: add_message_def Let_def)

lemma add_messages_snoc:
  "add_messages (ins @ [(now1, now2, r, c, t)]) conv = add_message now1 now2 r c t (add_messages ins conv)"
  by (induction ins conv rule: add_messages.induct) simp_all

lemma add_messages_messages:
  "ins \<noteq> [] \<or> length (messages conv) \<le> MAX_MEMORY_MESSAGES \<Longrightarrow>
   messages (add_messages ins conv)
     = most_recent MAX_MEMORY_MESSAGES (messages conv @ map built ins)"
proof (induction ins rule: rev_induct)
  case Nil
  then show ?case by (simp add: most_recent_all)
next
  case (snoc x ins)
  obtain now1 now2 r c t where x: "x = (now1, now2, r, c, t)"
    by (cases x) auto
  show ?case
  proof (cases "ins = []")
    case True
    then show ?thesis
      by (simp add: x add_message_messages)
  next
    case False
    with snoc.IH have "messages (add_messages ins conv)
       = most_recent MAX_MEMORY_MESSAGES (messages conv @ map built ins)"
      by simp
    then show ?thesis
      by (simp add: x add_messages_snoc add_message_messages most_recent_append)
  qed
qed


lemma find_user: "find (\<lambda>d. conv_user_id d = uid) coll = Some conv \<Longrightarrow> conv_user_id conv = uid"
  by (induction coll) (simp_all split: if_splits)

lemma get_upsert: "get_conversation (upsert_conversation conv coll) (conv_user_id conv) = Some conv"
  by (induction coll) (simp_all add: get_conversation_def)

lemma get_or_create_conversation_user:
  "conv_user_id (fst (get_or_create_conversation now1 now2 coll uid)) = uid"
proof (cases "get_conversation coll uid")
  case None
  then show ?thesis
    by (simp add: get_or_create_conversation_def create_conversation_def Let_def)
next
  case (Some conv)
  then have "conv_user_id conv = uid"
    unfolding get_conversation_def by (rule find_user)
  with Some show ?thesis
    by (simp add: get_or_create_conversation_def)
qed

lemma get_or_create_messages:
  "messages (fst (get_or_create_conversation now1 now2 coll uid))
     = (case get_conversation coll uid of Some old \<Rightarrow> messages old | None \<Rightarrow> [])"
  by (cases "get_conversation coll uid")
     (simp_all add: get_or_create_conversation_def create_conversation_def Let_def)

lemma memory_add_message_stored:
  "get_conversation (memory_add_message clock coll uid r c t) uid
     = Some (add_message (clock 2) (clock 3) r c t
              (fst (get_or_create_conversation (clock 0) (clock 1) coll uid)))"
proof -
  let ?conv1 = "add_message (clock 2) (clock 3) r c t
              (fst (get_or_create_conversation (clock 0) (clock 1) coll uid))"
  have "conv_user_id ?conv1 = uid"
    by (simp add: get_or_create_conversation_user)
  then have "get_conversation
      (upsert_conversation ?conv1 (snd (get_or_create_conversation (clock 0) (clock 1) coll uid))) uid
      = Some ?conv1"
    using get_upsert [of ?conv1] by simp
  then show ?thesis
    by (simp add: memory_add_message_def case_prod_beta Let_def)
qed


text \<open>
  Claim C5.  One append leaves at most 50 messages, whatever the conversation held.  A
  sequence of appends to a conversation (not empty, or starting from at most 50
  messages) leaves the 50 most recent of the old messages followed by the new ones, in
  their order; more than 50 appends leave exactly the last 50 appended messages.  The
  memory service stores that result: after its \<open>add_message\<close> the user's stored
  conversation holds the 50 most recent of the formerly stored messages plus the new one.
\<close>

theorem C5_conversation_keeps_last_fifty:
  "length (messages (add_message now1 now2 r c t conv)) \<le> 50
   \<and> (ins \<noteq> [] \<or> length (messages conv) \<le> 50 \<longrightarrow>
        length (messages (add_messages ins conv)) \<le> 50
        \<and> messages (add_messages ins conv) = most_recent 50 (messages conv @ map built ins))
   \<and> (50 < length ins \<longrightarrow>
        length (messages (add_messages ins conv)) = 50
        \<and> messages (add_messages ins conv) = most_recent 50 (map built ins))
   \<and> (\<exists>stored. get_conversation (memory_add_message clock coll uid r c t) uid = Some stored
        \<and> length (messages stored) \<le> 50
        \<and> messages stored = most_recent 50
             ((case get_conversation coll uid of Some old \<Rightarrow> messages old | None \<Rightarrow> [])
              @ [new_message (clock 2) r c t]))"
proof (intro conjI impI)
  show "length (messages (add_message now1 now2 r c t conv)) \<le> 50"
    by (simp add: add_message_messages most_recent_length MAX_MEMORY_MESSAGES_def)
next
  assume h: "ins \<noteq> [] \<or> length (messages conv) \<le> 50"
  then have eq: "messages (add_messages ins conv) = most_recent 50 (messages conv @ map built ins)"
    using add_messages_messages [of ins conv] by (simp add: MAX_MEMORY_MESSAGES_def)
  then show "messages (add_messages ins conv) = most_recent 50 (messages conv @ map built ins)" .
  show "length (messages (add_messages ins conv)) \<le> 50"
    by (simp add: eq most_recent_length)
next
  assume h: "50 < length ins"
  then have "ins \<noteq> []" by auto
  then have eq: "messages (add_messages ins conv) = most_recent 50 (messages conv @ map built ins)"
    using add_messages_messages [of ins conv] by (simp add: MAX_MEMORY_MESSAGES_def)
  also have "\<dots> = most_recent 50 (map built ins)"
    using h by (simp add: most_recent_def)
  finally show "messages (add_messages ins conv) = most_recent 50 (map built ins)" .
  then show "length (messages (add_messages ins conv)) = 50"
    using h by (simp add: most_recent_length)
next
  let ?stored = "add_message (clock 2) (clock 3) r c t
              (fst (get_or_create_conversation (clock 0) (clock 1) coll uid))"
  have "get_conversation (memory_add_message clock coll uid r c t) uid = Some ?stored"
    by (rule memory_add_message_stored)
  moreover have "length (messages ?stored) \<le> 50"
    by (simp add: add_message_messages most_recent_length MAX_MEMORY_MESSAGES_def)
  moreover have "messages ?stored = most_recent 50
             ((case get_conversation coll uid of Some old \<Rightarrow> messages old | None \<Rightarrow> [])
              @ [new_message (clock 2) r c t])"
    by (simp add: add_message_messages get_or_create_messages MAX_MEMORY_MESSAGES_def)
  ultimately show "\<exists>stored. get_conversation (memory_add_message clock coll uid r c t) uid = Some stored
        \<and> length (messages stored) \<le> 50
        \<and> messages stored = most_recent 50
             ((case get_conversation coll uid of Some old \<Rightarrow> messages old | None \<Rightarrow> [])
              @ [new_message (clock 2) r c t])"
    by blast
qed

theorem C5_conversation_keeps_last_fifty_witness:
  "sixty_requests \<noteq> [] \<and> 50 < length sixty_requests
   \<and> length (messages (add_messages sixty_requests fresh_conversation)) = 50
   \<and> messages (add_messages sixty_requests fresh_conversation)
       = map (\<lambda>k. new_message (int k) ''user'' ''halo'' ''text'') [10..<60]"
proof -
  define target where "target = map (\<lambda>k. new_message (int k) ''user'' ''halo'' ''text'') [10..<60]"
  have len: "50 < length sixty_requests" and ne: "sixty_requests \<noteq> []"
    by (simp_all add: sixty_requests_def)
  have b: "built \<circ> numbered_request = (\<lambda>k. new_message (int k) ''user'' ''halo'' ''text'')"
    by (rule ext) (simp add: numbered_request_def)
  have "drop 10 (map built sixty_requests) = map (built \<circ> numbered_request) (drop 10 [0..<60])"
    by (simp only: sixty_requests_def drop_map map_map)
  also have "drop 10 [0..<60] = [10..<60]"
    by (simp only: drop_upt) simp
  finally have "most_recent 50 (map built sixty_requests) = target"
    by (simp add: most_recent_def sixty_requests_def b target_def)
  moreover have "length (messages (add_messages sixty_requests fresh_conversation)) = 50
       \<and> messages (add_messages sixty_requests fresh_conversation)
           = most_recent 50 (map built sixty_requests)"
    using C5_conversation_keeps_last_fifty [of 0 0 "[]" "[]" "[]" fresh_conversation sixty_requests "\<lambda>_. 0" "[]" 0] len
    by blast
  ultimately show ?thesis
    using len ne unfolding target_def by simp
qed

text \<open>
  Claim C10.  With a positive limit \<open>get_recent_messages\<close> gives the last
  \<open>min limit length\<close> messages in order; with limit 0 or a negative limit it gives the
  whole list.
\<close>

theorem C10_recent_messages_limit:
  "(0 < limit \<longrightarrow>
      get_recent_messages conv limit = most_recent (min (nat limit) (length (messages conv))) (messages conv)
      \<and> length (get_recent_messages conv limit) = min (nat limit) (length (messages conv)))
   \<and> (limit \<le> 0 \<longrightarrow> get_recent_messages conv limit = messages conv)"
proof (intro conjI impI)
  assume pos: "0 < limit"
  then have "slice_from (- limit) (messages conv) = most_recent (nat limit) (messages conv)"
    using slice_from_neg [of "nat limit" "messages conv"] by simp
  with pos have eq: "get_recent_messages conv limit = most_recent (nat limit) (messages conv)"
    by (simp add: get_recent_messages_def)
  show "get_recent_messages conv limit = most_recent (min (nat limit) (length (messages conv))) (messages conv)"
    unfolding eq by (simp add: most_recent_def min_def)
  show "length (get_recent_messages conv limit) = min (nat limit) (length (messages conv))"
    unfolding eq by (rule most_recent_length)
next
  assume "limit \<le> 0"
  then show "get_recent_messages conv limit = messages conv"
    by (simp add: get_recent_messages_def)
qed


theorem C10_recent_messages_limit_witness:
  "(0::int) < 2
   \<and> get_recent_messages three_messages 2
       = [new_message 1 ''user'' ''halo'' ''text'', new_message 2 ''user'' ''halo'' ''text'']
   \<and> get_recent_messages three_messages 5 = messages three_messages
   \<and> (0::int) \<le> 0 \<and> get_recent_messages three_messages 0 = messages three_messages
   \<and> (- 1::int) \<le> 0 \<and> get_recent_messages three_messages (- 1) = messages three_messages
   \<and> length (messages three_messages) = 3"
proof -
  have m: "messages three_messages
     = [new_message 0 ''user'' ''halo'' ''text'', new_message 1 ''user'' ''halo'' ''text'',
        new_message 2 ''user'' ''halo'' ''text'']"
    by (simp add: three_messages_def fresh_conversation_def numbered_request_def upt_rec
          add_message_messages most_recent_def MAX_MEMORY_MESSAGES_def)
  show ?thesis
    using C10_recent_messages_limit [of 2 three_messages] C10_recent_messages_limit [of 5 three_messages] C10_recent_messages_limit [of 0 three_messages]
      C10_recent_messages_limit [of "- 1" three_messages]
    by (simp add: m most_recent_def)
qed

section \<open>Splitting long messages\<close>















section \<open>Referral redemption\<close>

text \<open>
  Claim C6.  When the code looked up belongs to the redeeming user, \<open>process_referral\<close>
  fails with the self-referral text and the users collection is as before.  When the
  redeeming user is stored with \<open>referred_by\<close> set (to a user id, which is never 0), it
  fails for every code and the collection is as before: no balance, \<open>referral_count\<close> or
  \<open>referred_by\<close> of anyone has changed.
\<close>

theorem C6_referral_rejections_leave_users_untouched:
  "(get_user_by_referral_code db code = Some referrer \<and> user_id referrer = new_user_id \<longrightarrow>
      process_referral s db new_user_id code
        = ((False, ''Anda tidak bisa menggunakan kode referral sendiri.''), db))
   \<and> (get_user db new_user_id = Some new_user \<and> referred_by new_user = Some r \<and> r \<noteq> 0 \<longrightarrow>
      \<not> fst (fst (process_referral s db new_user_id code))
      \<and> snd (process_referral s db new_user_id code) = db)"
  by (auto simp add: process_referral_def split: option.splits)

theorem C6_referral_rejections_leave_users_untouched_witness:
  "get_user_by_referral_code two_users ''AB12CD34'' = Some sample_user
   \<and> user_id sample_user = 1001
   \<and> process_referral default_settings two_users 1001 ''AB12CD34''
       = ((False, ''Anda tidak bisa menggunakan kode referral sendiri.''), two_users)
   \<and> get_user two_users 1002 = Some referred_user
   \<and> referred_by referred_user = Some 1001
   \<and> process_referral default_settings two_users 1002 ''AB12CD34''
       = ((False, ''Anda sudah menggunakan kode referral sebelumnya.''), two_users)"
proof -
  have a: "get_user_by_referral_code two_users ''AB12CD34'' = Some sample_user"
    "user_id sample_user = 1001"
    by (simp_all add: get_user_by_referral_code_def two_users_def sample_user_def)
  have b: "get_user two_users 1002 = Some referred_user" "referred_by referred_user = Some 1001"
    by (simp_all add: get_user_def two_users_def referred_user_def sample_user_def)
  have c: "process_referral default_settings two_users 1002 ''AB12CD34''
       = ((False, ''Anda sudah menggunakan kode referral sebelumnya.''), two_users)"
    using a b by (simp add: process_referral_def)
  show ?thesis
    using a b c
      C6_referral_rejections_leave_users_untouched [where db = two_users and code = "''AB12CD34''" and referrer = sample_user
            and new_user_id = 1001 and s = default_settings]
      C6_referral_rejections_leave_users_untouched [where db = two_users and code = "''AB12CD34''" and new_user = referred_user
            and new_user_id = 1002 and r = 1001 and s = default_settings]
    by simp
qed


section \<open>Broadcast accounting\<close>

lemma batch_counts:
  "count_results (map (send_broadcast_message deliver)
       (filter (\<lambda>uid. uid \<noteq> admin_id) batch)) (sc, fc)
     = (sc + int (length (filter (\<lambda>uid. uid \<noteq> admin_id \<and> deliver uid) batch)),
        fc + int (length (filter (\<lambda>uid. uid \<noteq> admin_id \<and> \<not> deliver uid) batch)))"
  by (induction batch arbitrary: sc fc) (simp_all add: send_broadcast_message_def)

lemma broadcast_batches_counts:
  "broadcast_batches deliver admin_id user_ids (sc, fc)
     = (sc + int (length (filter (\<lambda>uid. uid \<noteq> admin_id \<and> deliver uid) user_ids)),
        fc + int (length (filter (\<lambda>uid. uid \<noteq> admin_id \<and> \<not> deliver uid) user_ids)))"
proof (induction user_ids arbitrary: sc fc rule: length_induct)
  case (1 user_ids)
  show ?case
  proof (cases "user_ids = []")
    case True
    then show ?thesis
      by (subst broadcast_batches.simps) simp
  next
    case False
    then have shorter: "length (drop 30 user_ids) < length user_ids"
      by simp
    have split: "length (filter P user_ids)
        = length (filter P (take 30 user_ids)) + length (filter P (drop 30 user_ids))" for P
      by (metis append_take_drop_id filter_append length_append)
    have "broadcast_batches deliver admin_id user_ids (sc, fc)
       = broadcast_batches deliver admin_id (drop 30 user_ids)
           (count_results (map (send_broadcast_message deliver)
              (filter (\<lambda>uid. uid \<noteq> admin_id) (take 30 user_ids))) (sc, fc))"
      using False by (subst broadcast_batches.simps) (simp add: Let_def)
    also have "\<dots> = (sc + int (length (filter (\<lambda>uid. uid \<noteq> admin_id \<and> deliver uid) user_ids)),
        fc + int (length (filter (\<lambda>uid. uid \<noteq> admin_id \<and> \<not> deliver uid) user_ids)))"
      using 1 [rule_format, OF shorter]
        split [of "\<lambda>uid. uid \<noteq> admin_id \<and> deliver uid"]
        split [of "\<lambda>uid. uid \<noteq> admin_id \<and> \<not> deliver uid"]
      by (simp add: batch_counts)
    finally show ?thesis .
  qed
qed

lemma execute_broadcast_counts:
  "success (execute_broadcast db deliver admin_id) + failed (execute_broadcast db deliver admin_id)
     = int (length (filter (\<lambda>uid. uid \<noteq> admin_id) (get_users_for_broadcast db True)))
   \<and> total (execute_broadcast db deliver admin_id)
     = int (length (get_users_for_broadcast db True))"
proof -
  have "length (filter (\<lambda>uid. uid \<noteq> admin_id \<and> deliver uid) xs)
      + length (filter (\<lambda>uid. uid \<noteq> admin_id \<and> \<not> deliver uid) xs)
      = length (filter (\<lambda>uid. uid \<noteq> admin_id) xs)" for xs :: "int list"
    by (induction xs) auto
  then show ?thesis
    by (simp add: execute_broadcast_def Let_def broadcast_batches_counts
        del: of_nat_add flip: of_nat_add)
qed

text \<open>
  Claim C7 asks for \<open>success + failed = total = N\<close>, \<open>N\<close> being the recipients without the
  initiating admin.  The program counts \<open>total\<close> before it leaves the admin out: with the
  admin 1001 and one other user stored, all sends accepted, it reports one success, no
  failure and a total of two.
\<close>

theorem C7_broadcast_total_counts_initiator:
  "get_users_for_broadcast two_users True = [1001, 1002]
   \<and> filter (\<lambda>uid. uid \<noteq> 1001) (get_users_for_broadcast two_users True) = [1002]
   \<and> execute_broadcast two_users everyone_reachable 1001 = \<lparr>success = 1, failed = 0, total = 2\<rparr>
   \<and> success (execute_broadcast two_users everyone_reachable 1001)
       + failed (execute_broadcast two_users everyone_reachable 1001)
       \<noteq> total (execute_broadcast two_users everyone_reachable 1001)"
proof -
  have ids: "get_users_for_broadcast two_users True = [1001, 1002]"
    by (simp add: get_users_for_broadcast_def two_users_def referred_user_def sample_user_def)
  then have "execute_broadcast two_users everyone_reachable 1001
      = \<lparr>success = 1, failed = 0, total = 2\<rparr>"
    by (simp add: execute_broadcast_def Let_def broadcast_batches_counts everyone_reachable_def)
  with ids show ?thesis
    by simp
qed

section \<open>The admin check\<close>






end
